theory Spec2Isabelle
  imports Complex_Main
begin

section \<open>The Linux driver of netmiko (netmiko/linux/linux_ssh.py)\<close>

text \<open>
  The module defines two classes, \<open>LinuxSSH\<close> (a subclass of \<open>CiscoSSHConnection\<close>)
  and \<open>LinuxFileTransfer\<close> (a subclass of \<open>CiscoFileTransfer\<close>). Each method is
  embedded as a function that takes the object's state and returns the outcome
  together with the state it leaves behind: a raised exception is \<open>Inl\<close>, a returned
  value is \<open>Inr\<close>. Attribute updates made before an exception is raised stay in the
  state, as they do in Python.

  Strings are lists of 8-bit characters; the texts handled here (shell commands,
  prompts, checksum lines) are read as ASCII.
\<close>

subsection \<open>Exceptions and outcomes\<close>

datatype exn =
    SocketTimeout
  | NetmikoTimeoutException string
  | ValueError string
  | NotImplementedError
  | OtherError string

type_synonym ('s, 'a) action = "'s \<Rightarrow> (exn + 'a) \<times> 's"

definition return :: "'a \<Rightarrow> ('s, 'a) action" where
  "return x s = (Inr x, s)"

definition raise :: "exn \<Rightarrow> ('s, 'a) action" where
  "raise e s = (Inl e, s)"

text \<open>Sequencing of two statements: an exception of the first one skips the second.\<close>

definition then_do :: "('s, 'a) action \<Rightarrow> ('a \<Rightarrow> ('s, 'b) action) \<Rightarrow> ('s, 'b) action" where
  "then_do m k s = (case m s of (Inl e, s') \<Rightarrow> (Inl e, s') | (Inr x, s') \<Rightarrow> k x s')"

text \<open>\<^verbatim>\<open>try: m  except socket.timeout: h\<close>; every other exception passes through.\<close>

definition except_socket_timeout :: "('s, 'a) action \<Rightarrow> ('s, 'a) action \<Rightarrow> ('s, 'a) action" where
  "except_socket_timeout m h s =
     (case m s of (Inl SocketTimeout, s') \<Rightarrow> h s' | (r, s') \<Rightarrow> (r, s'))"

subsection \<open>What the module takes from outside\<close>

text \<open>
  Arguments that the driver only hands on: the command argument of
  \<open>send_config_set\<close> (\<open>Union[str, Sequence[str], TextIO, None]\<close>) and its keyword
  arguments.
\<close>

datatype config_commands =
    NoCommands
  | OneCommand string
  | CommandSeq "string list"
  | CommandFile "string list"

type_synonym kwargs = "(string \<times> string) list"

text \<open>
  The base classes (\<open>netmiko.cisco_base_connection\<close>, \<open>netmiko.base_connection\<close>),
  the \<open>re\<close> module and the process environment are not part of the sources. The
  driver is therefore embedded over an arbitrary base connection: \<open>'c\<close> is whatever
  the base class keeps (the channel, the cached prompt, the remote end), and the record
  below holds the inherited methods the driver calls, \<open>re.search\<close> (as the test the
  driver makes of its result), and the three module constants \<open>LINUX_PROMPT_PRI\<close>,
  \<open>LINUX_PROMPT_ALT\<close>, \<open>LINUX_PROMPT_ROOT\<close> that are read from the environment when
  the module is loaded. Every inherited method may raise. Durations are rationals.
\<close>

record 'c base =
  LINUX_PROMPT_PRI :: string
  LINUX_PROMPT_ALT :: string
  LINUX_PROMPT_ROOT :: string
  re_search :: "string \<Rightarrow> string \<Rightarrow> int \<Rightarrow> bool"
  select_delay_factor :: "rat \<Rightarrow> 'c \<Rightarrow> rat"
  normalize_cmd :: "string \<Rightarrow> string"
  write_channel :: "string \<Rightarrow> ('c, unit) action"
  read_channel :: "('c, string) action"
  super_set_base_prompt :: "string \<Rightarrow> string \<Rightarrow> rat \<Rightarrow> string option \<Rightarrow> ('c, string) action"
  super_check_enable_mode :: "string \<Rightarrow> ('c, bool) action"
  super_send_config_set :: "config_commands \<Rightarrow> bool \<Rightarrow> kwargs \<Rightarrow> ('c, string) action"
  send_command_str :: "string \<Rightarrow> rat \<Rightarrow> ('c, string) action"

text \<open>\<open>re.IGNORECASE\<close>, the default of the \<open>re_flags\<close> arguments.\<close>

definition IGNORECASE :: int where
  "IGNORECASE = 2"

subsection \<open>The session object\<close>

text \<open>
  A \<open>LinuxSSH\<close> object: the attributes the driver reads (\<open>username\<close>, \<open>secret\<close>),
  the state of its base class, and a trace of what the driver has done to the outside
  world so far, oldest first: each call of an inherited method with its arguments, and
  each \<open>time.sleep\<close> with its duration.
\<close>

datatype call =
    WriteChannel string
  | ReadChannel
  | Sleep rat
  | SetBasePrompt string string rat "string option"
  | CheckEnableMode string
  | SendConfigSet config_commands bool kwargs
  | SendCommandStr string rat

record 'c session =
  username :: string
  secret :: string
  trace :: "call list"
  conn :: 'c

text \<open>Calling an inherited method: it runs on the base state and the call is traced.\<close>

definition invoke :: "call \<Rightarrow> ('c, 'a) action \<Rightarrow> ('c session, 'a) action" where
  "invoke ev f s =
     (case f (conn s) of (r, c') \<Rightarrow> (r, s\<lparr>trace := trace s @ [ev], conn := c'\<rparr>))"

text \<open>
  \<open>time.sleep(t)\<close>: it raises \<open>ValueError\<close> for a negative duration. The duration
  \<open>0.3 * delay_factor\<close> of the driver is the rational \<open>3 / 10 * delay_factor\<close>
  here; floating-point rounding is not modelled.
\<close>

definition sleep :: "rat \<Rightarrow> ('c session, unit) action" where
  "sleep t s =
     (if t < 0 then (Inl (ValueError ''sleep length must be non-negative''), s)
      else (Inr (), s\<lparr>trace := trace s @ [Sleep t]\<rparr>))"

subsection \<open>class LinuxSSH\<close>

text \<open>
  \<open>set_base_prompt\<close> and \<open>check_enable_mode\<close> pass their arguments to the inherited
  methods. The wrappers \<open>set_base_prompt0\<close> and \<open>check_enable_mode0\<close> are the calls
  with every argument left at its default, as \<open>enable\<close> and \<open>exit_enable_mode\<close> make
  them.
\<close>

definition set_base_prompt ::
  "'c base \<Rightarrow> string \<Rightarrow> string \<Rightarrow> rat \<Rightarrow> string option \<Rightarrow> ('c session, string) action" where
  "set_base_prompt B pri_prompt_terminator alt_prompt_terminator delay_factor pattern =
     invoke (SetBasePrompt pri_prompt_terminator alt_prompt_terminator delay_factor pattern)
       (super_set_base_prompt B pri_prompt_terminator alt_prompt_terminator delay_factor pattern)"

definition set_base_prompt0 :: "'c base \<Rightarrow> ('c session, string) action" where
  "set_base_prompt0 B = set_base_prompt B (LINUX_PROMPT_PRI B) (LINUX_PROMPT_ALT B) 1 None"

definition check_enable_mode :: "'c base \<Rightarrow> string \<Rightarrow> ('c session, bool) action" where
  "check_enable_mode B check_string =
     invoke (CheckEnableMode check_string) (super_check_enable_mode B check_string)"

definition check_enable_mode0 :: "'c base \<Rightarrow> ('c session, bool) action" where
  "check_enable_mode0 B = check_enable_mode B (LINUX_PROMPT_ROOT B)"

text \<open>\<open>self.write_channel(self.normalize_cmd(x))\<close>\<close>

definition write_cmd :: "'c base \<Rightarrow> string \<Rightarrow> ('c session, unit) action" where
  "write_cmd B x = invoke (WriteChannel (normalize_cmd B x)) (write_channel B (normalize_cmd B x))"

definition send_config_set ::
  "'c base \<Rightarrow> config_commands \<Rightarrow> bool \<Rightarrow> kwargs \<Rightarrow> ('c session, string) action" where
  "send_config_set B config_commands exit_config_mode kw s =
     (let exit_config_mode = (if username s = ''root'' then False else exit_config_mode)
      in invoke (SendConfigSet config_commands exit_config_mode kw)
           (super_send_config_set B config_commands exit_config_mode kw) s)"

definition check_config_mode :: "'c base \<Rightarrow> string \<Rightarrow> string \<Rightarrow> ('c session, bool) action" where
  "check_config_mode B check_string pattern = check_enable_mode B check_string"

definition exit_enable_mode :: "'c base \<Rightarrow> string \<Rightarrow> ('c session, string) action" where
  "exit_enable_mode B exit_command s =
     (let delay_factor = select_delay_factor B 0 (conn s);
          output = ''''
      in then_do (check_enable_mode0 B) (\<lambda>privileged.
           if privileged then
             then_do (write_cmd B exit_command) (\<lambda>_.
             then_do (sleep (3 / 10 * delay_factor)) (\<lambda>_.
             then_do (set_base_prompt0 B) (\<lambda>_.
             then_do (check_enable_mode0 B) (\<lambda>still_privileged.
               if still_privileged then raise (ValueError ''Failed to exit enable mode.'')
               else return output))))
           else return output) s)"

definition enable_failed_msg :: string where
  "enable_failed_msg =
     ''Failed to enter enable mode. Please ensure you pass the '' @ [CHR 0x27] @ ''secret''
       @ [CHR 0x27] @ '' argument to ConnectHandler.''"

definition enable ::
  "'c base \<Rightarrow> string \<Rightarrow> string \<Rightarrow> string option \<Rightarrow> int \<Rightarrow> ('c session, string) action" where
  "enable B cmd pattern enable_pattern re_flags s =
     (let delay_factor = select_delay_factor B 0 (conn s);
          output = ''''
      in then_do (check_enable_mode0 B) (\<lambda>privileged.
           if \<not> privileged then
             then_do (write_cmd B cmd) (\<lambda>_.
             then_do (sleep (3 / 10 * delay_factor)) (\<lambda>_.
             then_do
               (except_socket_timeout
                  (then_do (invoke ReadChannel (read_channel B)) (\<lambda>r.
                     let output = output @ r
                     in then_do
                          (if re_search B pattern output re_flags
                           then (\<lambda>s'. write_cmd B (secret s') s')
                           else return ())
                          (\<lambda>_. then_do (set_base_prompt0 B) (\<lambda>_. return output))))
                  (raise (NetmikoTimeoutException
                     ''Timed-out reading channel, data not available.'')))
               (\<lambda>output.
             then_do (check_enable_mode0 B) (\<lambda>now_privileged.
               if \<not> now_privileged then raise (ValueError enable_failed_msg)
               else return output))))
           else return output) s)"

definition config_mode ::
  "'c base \<Rightarrow> string \<Rightarrow> string \<Rightarrow> int \<Rightarrow> ('c session, string) action" where
  "config_mode B config_command pattern re_flags = enable B config_command pattern None re_flags"

definition exit_config_mode :: "'c base \<Rightarrow> string \<Rightarrow> string \<Rightarrow> ('c session, string) action" where
  "exit_config_mode B exit_config pattern = exit_enable_mode B exit_config"

text \<open>\<open>save_config(*args, **kwargs)\<close>\<close>

definition save_config :: "string list \<Rightarrow> kwargs \<Rightarrow> ('c session, string) action" where
  "save_config args kw = raise NotImplementedError"

text \<open>
  The calls with every argument left at its default value, as the signatures give it.
\<close>

definition enable0 :: "'c base \<Rightarrow> ('c session, string) action" where
  "enable0 B = enable B ''sudo -s'' ''ssword'' None IGNORECASE"

definition config_mode0 :: "'c base \<Rightarrow> ('c session, string) action" where
  "config_mode0 B = config_mode B ''sudo -s'' ''ssword'' IGNORECASE"

definition exit_enable_mode0 :: "'c base \<Rightarrow> ('c session, string) action" where
  "exit_enable_mode0 B = exit_enable_mode B ''exit''"

definition exit_config_mode0 :: "'c base \<Rightarrow> ('c session, string) action" where
  "exit_config_mode0 B = exit_config_mode B ''exit'' []"

definition check_config_mode0 :: "'c base \<Rightarrow> ('c session, bool) action" where
  "check_config_mode0 B = check_config_mode B (LINUX_PROMPT_ROOT B) []"

subsection \<open>class LinuxFileTransfer\<close>

text \<open>
  The attributes that \<open>remote_md5\<close> reads. \<open>file_system\<close> is \<open>Optional[str]\<close> in the
  constructor; \<open>ssh_ctl_chan\<close> is the connection object the commands are sent over.
\<close>

record 'c file_transfer =
  source_file :: string
  dest_file :: string
  file_system :: "string option"
  direction :: string
  ssh_ctl_chan :: "'c session"

text \<open>An f-string field: \<open>None\<close> is formatted as the text \<open>None\<close>.\<close>

definition fmt :: "string option \<Rightarrow> string" where
  "fmt x = (case x of None \<Rightarrow> ''None'' | Some v \<Rightarrow> v)"

text \<open>
  White space as \<open>\s\<close> and \<open>str.strip()\<close> see it on ASCII text: space, the
  controls 9 to 13 and the separators 28 to 31.
\<close>

definition is_space :: "char \<Rightarrow> bool" where
  "is_space c =
     (c \<in> set [CHR '' '', CHR 0x09, CHR 0x0A, CHR 0x0B, CHR 0x0C, CHR 0x0D,
                CHR 0x1C, CHR 0x1D, CHR 0x1E, CHR 0x1F])"

definition rstrip :: "string \<Rightarrow> string" where
  "rstrip x = rev (dropWhile is_space (rev x))"

definition strip :: "string \<Rightarrow> string" where
  "strip x = rstrip (dropWhile is_space x)"

text \<open>
  A regular expression is represented by what \<open>re.search(pattern, text)\<close> followed
  by \<open>group(1)\<close> computes: the first group of the first match, if there is a match.
  \<open>leading_token\<close> is the default pattern of \<open>process_md5\<close>, \<^verbatim>\<open>^(\S+)\s+\<close>: it
  matches only at the start of the text, one or more characters that are not white
  space followed by at least one white space character. The group is greedy, and no
  shorter group can match, because the character after a shorter group is not white
  space.
\<close>

type_synonym pattern = "string \<Rightarrow> string option"

definition leading_token :: pattern where
  "leading_token text =
     (let tok = takeWhile (\<lambda>c. \<not> is_space c) text;
          rest = dropWhile (\<lambda>c. \<not> is_space c) text
      in if tok \<noteq> [] \<and> rest \<noteq> [] then Some tok else None)"

text \<open>
  Modelled from the spec: \<open>process_md5\<close> of the base class \<open>CiscoFileTransfer\<close>, to
  which the driver's \<open>process_md5\<close> hands its two arguments, is not part of the
  sources. The spec has it return the token that the pattern extracts from the raw
  output. It says nothing of an output the pattern does not match; that case is a
  failure here and no statement below depends on which.
\<close>

definition super_process_md5 :: "string \<Rightarrow> pattern \<Rightarrow> exn + string" where
  "super_process_md5 md5_output pattern =
     (case pattern md5_output of
        Some tok \<Rightarrow> Inr tok
      | None \<Rightarrow> Inl (ValueError (''Invalid output from MD5 command: '' @ md5_output)))"

text \<open>A static method: it takes no object.\<close>

definition process_md5 :: "string \<Rightarrow> pattern \<Rightarrow> exn + string" where
  "process_md5 md5_output pattern = super_process_md5 md5_output pattern"

definition process_md5_0 :: "string \<Rightarrow> exn + string" where
  "process_md5_0 md5_output = process_md5 md5_output leading_token"

text \<open>
  \<open>remote_md5\<close>. When \<open>remote_file\<close> is \<open>None\<close> and the direction is neither
  \<open>put\<close> nor \<open>get\<close>, it stays \<open>None\<close> and is formatted as such.
\<close>

definition remote_md5_cmd :: "'c file_transfer \<Rightarrow> string \<Rightarrow> string option \<Rightarrow> string" where
  "remote_md5_cmd t base_cmd remote_file =
     (let remote_file =
            (if remote_file = None then
               (if direction t = ''put'' then Some (dest_file t)
                else if direction t = ''get'' then Some (source_file t)
                else remote_file)
             else remote_file)
      in base_cmd @ '' '' @ fmt (file_system t) @ ''/'' @ fmt remote_file)"

definition remote_md5 ::
  "'c base \<Rightarrow> string \<Rightarrow> string option \<Rightarrow> ('c file_transfer, string) action" where
  "remote_md5 B base_cmd remote_file t =
     (let cmd = remote_md5_cmd t base_cmd remote_file
      in case invoke (SendCommandStr cmd 300) (send_command_str B cmd 300) (ssh_ctl_chan t) of
           (Inl e, ch) \<Rightarrow> (Inl e, t\<lparr>ssh_ctl_chan := ch\<rparr>)
         | (Inr dest_md5, ch) \<Rightarrow>
             (case process_md5_0 dest_md5 of
                Inl e \<Rightarrow> (Inl e, t\<lparr>ssh_ctl_chan := ch\<rparr>)
              | Inr dest_md5 \<Rightarrow> (Inr (strip dest_md5), t\<lparr>ssh_ctl_chan := ch\<rparr>)))"

definition enable_scp :: "string \<Rightarrow> ('c file_transfer, unit) action" where
  "enable_scp cmd = raise NotImplementedError"

definition disable_scp :: "string \<Rightarrow> ('c file_transfer, unit) action" where
  "disable_scp cmd = raise NotImplementedError"

subsection \<open>A scripted base connection\<close>

text \<open>
  Modelled from the spec: the base connection class is not part of the sources. To run
  the driver on concrete inputs, this is a base connection with a scripted remote end,
  after the spec's description of the session channel: the privilege test is a pure
  read of the cached base prompt (true iff it ends with the check string); a prompt
  refresh sends a newline, reads, and stores the trimmed line as the base prompt; a
  read yields the next scripted reply, which is data or a transport timeout. The
  generic command batch writes each line and then, if asked to, the exit command.
  \<open>re.search\<close> is stood in for by a search for the pattern as a literal substring.
  Nothing is proved about this connection in general; it only supplies the inputs of
  the concrete runs below.
\<close>

datatype reply = Data string | Timeout

record device =
  base_prompt :: string
  written :: "string list"
  pending :: "reply list"

fun contains :: "string \<Rightarrow> string \<Rightarrow> bool" where
  "contains p [] = (p = [])"
| "contains p (c # cs) = (take (length p) (c # cs) = p \<or> contains p cs)"

definition ends_with :: "string \<Rightarrow> string \<Rightarrow> bool" where
  "ends_with x suffix = (length suffix \<le> length x \<and> drop (length x - length suffix) x = suffix)"

definition dev_write :: "string \<Rightarrow> (device, unit) action" where
  "dev_write x d = (Inr (), d\<lparr>written := written d @ [x]\<rparr>)"

definition dev_read :: "(device, string) action" where
  "dev_read d =
     (case pending d of
        [] \<Rightarrow> (Inr [], d)
      | Data x # rest \<Rightarrow> (Inr x, d\<lparr>pending := rest\<rparr>)
      | Timeout # rest \<Rightarrow> (Inl SocketTimeout, d\<lparr>pending := rest\<rparr>))"

definition dev_set_base_prompt ::
  "string \<Rightarrow> string \<Rightarrow> rat \<Rightarrow> string option \<Rightarrow> (device, string) action" where
  "dev_set_base_prompt pri alt delay pat =
     then_do (dev_write [CHR 0x0A]) (\<lambda>_.
     then_do dev_read (\<lambda>line d. (Inr (strip line), d\<lparr>base_prompt := strip line\<rparr>)))"

definition dev_check_enable_mode :: "string \<Rightarrow> (device, bool) action" where
  "dev_check_enable_mode check_string d = (Inr (ends_with (base_prompt d) check_string), d)"

fun dev_write_all :: "string list \<Rightarrow> device \<Rightarrow> device" where
  "dev_write_all [] d = d"
| "dev_write_all (x # xs) d = dev_write_all xs (d\<lparr>written := written d @ [x @ [CHR 0x0A]]\<rparr>)"

definition dev_send_config_set :: "config_commands \<Rightarrow> bool \<Rightarrow> kwargs \<Rightarrow> (device, string) action" where
  "dev_send_config_set cmds exit_after kw d =
     (let ls = (case cmds of NoCommands \<Rightarrow> [] | OneCommand x \<Rightarrow> [x]
                 | CommandSeq xs \<Rightarrow> xs | CommandFile xs \<Rightarrow> xs)
      in (Inr [], dev_write_all (ls @ (if exit_after then [''exit''] else [])) d))"

definition dev_send_command_str :: "string \<Rightarrow> rat \<Rightarrow> (device, string) action" where
  "dev_send_command_str cmd read_timeout =
     then_do (dev_write (cmd @ [CHR 0x0A])) (\<lambda>_. dev_read)"

definition scripted :: "device base" where
  "scripted =
     \<lparr> LINUX_PROMPT_PRI = ''$'', LINUX_PROMPT_ALT = ''#'', LINUX_PROMPT_ROOT = ''#'',
       re_search = (\<lambda>pattern text flags. contains pattern text),
       select_delay_factor = (\<lambda>delay_factor d. max delay_factor 1),
       normalize_cmd = (\<lambda>x. rstrip x @ [CHR 0x0A]),
       write_channel = dev_write,
       read_channel = dev_read,
       super_set_base_prompt = dev_set_base_prompt,
       super_check_enable_mode = dev_check_enable_mode,
       super_send_config_set = dev_send_config_set,
       send_command_str = dev_send_command_str \<rparr>"

definition login :: "string \<Rightarrow> string \<Rightarrow> string \<Rightarrow> reply list \<Rightarrow> device session" where
  "login user pw prompt script =
     \<lparr> username = user, secret = pw, trace = [],
       conn = \<lparr> base_prompt = prompt, written = [], pending = script \<rparr> \<rparr>"

section \<open>Properties\<close>

subsection \<open>Running a sequence of statements\<close>

lemma then_do_returns: "m s = (Inr x, s') \<Longrightarrow> then_do m k s = k x s'"
  by (simp add: then_do_def)

lemma then_do_raises: "m s = (Inl e, s') \<Longrightarrow> then_do m k s = (Inl e, s')"
  by (simp add: then_do_def)

lemma invoke_outcome:
  "f (conn s) = (r, c') \<Longrightarrow> invoke ev f s = (r, s\<lparr>trace := trace s @ [ev], conn := c'\<rparr>)"
  by (simp add: invoke_def)

lemma check_enable_mode0_outcome:
  "super_check_enable_mode B (LINUX_PROMPT_ROOT B) (conn s) = (r, c') \<Longrightarrow>
   check_enable_mode0 B s =
     (r, s\<lparr>trace := trace s @ [CheckEnableMode (LINUX_PROMPT_ROOT B)], conn := c'\<rparr>)"
  by (simp add: check_enable_mode0_def check_enable_mode_def invoke_outcome)

lemma write_cmd_outcome:
  "write_channel B (normalize_cmd B x) (conn s) = (r, c') \<Longrightarrow>
   write_cmd B x s = (r, s\<lparr>trace := trace s @ [WriteChannel (normalize_cmd B x)], conn := c'\<rparr>)"
  by (simp add: write_cmd_def invoke_outcome)

lemma set_base_prompt0_outcome:
  "super_set_base_prompt B (LINUX_PROMPT_PRI B) (LINUX_PROMPT_ALT B) 1 None (conn s) = (r, c') \<Longrightarrow>
   set_base_prompt0 B s =
     (r, s\<lparr>trace := trace s @ [SetBasePrompt (LINUX_PROMPT_PRI B) (LINUX_PROMPT_ALT B) 1 None],
           conn := c'\<rparr>)"
  by (simp add: set_base_prompt0_def set_base_prompt_def invoke_outcome)

lemma dropWhile_nothing: "\<forall>c\<in>set xs. \<not> P c \<Longrightarrow> dropWhile P xs = xs"
  by (cases xs) auto

lemma strip_token: "\<forall>c\<in>set h. \<not> is_space c \<Longrightarrow> strip h = h"
  by (simp add: strip_def rstrip_def dropWhile_nothing)

lemmas driver_run =
  Let_def check_enable_mode0_def check_enable_mode_def write_cmd_def set_base_prompt0_def
  set_base_prompt_def invoke_def sleep_def return_def raise_def then_do_def
  except_socket_timeout_def

lemmas scripted_run =
  scripted_def login_def dev_write_def dev_read_def dev_set_base_prompt_def
  dev_check_enable_mode_def dev_send_config_set_def dev_send_command_str_def
  ends_with_def rstrip_def strip_def is_space_def

subsection \<open>Elevation: \<open>enable\<close>\<close>

text \<open>
  The spec's names are those of a design document. \<open>elevate\<close> is \<open>enable\<close>,
  \<open>deElevate\<close> is \<open>exit_enable_mode\<close>, \<open>isElevated\<close> is \<open>check_enable_mode\<close>, the
  command-mode operations are \<open>config_mode\<close>, \<open>exit_config_mode\<close> and
  \<open>check_config_mode\<close>, \<open>sendCommandBatch\<close> is \<open>send_config_set\<close>,
  \<open>remoteChecksum\<close> is \<open>remote_md5\<close> and \<open>parseChecksum\<close> is \<open>process_md5\<close>. Its
  \<open>SessionTimeoutError\<close> is \<open>NetmikoTimeoutException\<close>, its \<open>PermissionError\<close> and
  \<open>FatalStateError\<close> are the two \<open>ValueError\<close>s of \<open>enable\<close> and
  \<open>exit_enable_mode\<close>, and its \<open>UnsupportedOperationError\<close> is
  \<open>NotImplementedError\<close>. A session is Privileged when the inherited privilege test
  answers true for \<open>LINUX_PROMPT_ROOT\<close>.
\<close>

text \<open>
  C1: when the session is not privileged, the command has been written, the channel has
  been read, the secret has been written if the output matched the pattern, the base
  prompt has been refreshed, and the session is still not privileged, \<open>enable\<close> raises
  the \<open>ValueError\<close> that asks for the \<open>secret\<close> argument. The command is written
  once and nothing is tried again: the trace of the call is the privilege test, one
  write of the command, the sleep, one read, the write of the secret if there was one,
  one prompt refresh and the second privilege test.
\<close>

theorem enable_fails_once_when_not_privileged:
  assumes "super_check_enable_mode B (LINUX_PROMPT_ROOT B) (conn s) = (Inr False, c1)"
      and "write_channel B (normalize_cmd B cmd) c1 = (Inr (), c2)"
      and "0 \<le> select_delay_factor B 0 (conn s)"
      and "read_channel B c2 = (Inr out, c3)"
      and "if re_search B pattern out re_flags
           then write_channel B (normalize_cmd B (secret s)) c3 = (Inr (), c4)
           else c4 = c3"
      and "super_set_base_prompt B (LINUX_PROMPT_PRI B) (LINUX_PROMPT_ALT B) 1 None c4 = (Inr p, c5)"
      and "super_check_enable_mode B (LINUX_PROMPT_ROOT B) c5 = (Inr False, c6)"
  shows "enable B cmd pattern enable_pattern re_flags s =
           (Inl (ValueError enable_failed_msg),
            s\<lparr>trace := trace s @
                 [CheckEnableMode (LINUX_PROMPT_ROOT B),
                  WriteChannel (normalize_cmd B cmd),
                  Sleep (3 / 10 * select_delay_factor B 0 (conn s)),
                  ReadChannel] @
                 (if re_search B pattern out re_flags
                  then [WriteChannel (normalize_cmd B (secret s))] else []) @
                 [SetBasePrompt (LINUX_PROMPT_PRI B) (LINUX_PROMPT_ALT B) 1 None,
                  CheckEnableMode (LINUX_PROMPT_ROOT B)],
               conn := c6\<rparr>)"
  using assms
  by (simp add: enable_def Let_def check_enable_mode0_outcome write_cmd_outcome
      set_base_prompt0_outcome invoke_outcome then_do_def except_socket_timeout_def
      sleep_def return_def raise_def split: if_splits)

theorem enable_fails_once_when_not_privileged_witness:
  "enable scripted ''sudo -s'' ''ssword'' None IGNORECASE
     (login ''alice'' [] ''alice@host:~$''
        [Data ''[sudo] password for alice: '', Data ''alice@host:~$ '']) =
   (Inl (ValueError
      (''Failed to enter enable mode. Please ensure you pass the '' @ [CHR 0x27] @ ''secret''
        @ [CHR 0x27] @ '' argument to ConnectHandler.'')),
    \<lparr>username = ''alice'', secret = [],
     trace = [CheckEnableMode ''#'', WriteChannel (''sudo -s'' @ [CHR 0x0A]), Sleep (3 / 10),
              ReadChannel, WriteChannel [CHR 0x0A], SetBasePrompt ''$'' ''#'' 1 None,
              CheckEnableMode ''#''],
     conn = \<lparr>base_prompt = ''alice@host:~$'',
             written = [''sudo -s'' @ [CHR 0x0A], [CHR 0x0A], [CHR 0x0A]], pending = []\<rparr>\<rparr>)"
proof -
  let ?s = "login ''alice'' [] ''alice@host:~$''
              [Data ''[sudo] password for alice: '', Data ''alice@host:~$ '']"
  let ?c1 = "conn ?s"
  let ?c2 = "snd (write_channel scripted (normalize_cmd scripted ''sudo -s'') ?c1)"
  let ?c3 = "snd (read_channel scripted ?c2)"
  let ?c4 = "snd (write_channel scripted (normalize_cmd scripted (secret ?s)) ?c3)"
  let ?c5 = "snd (super_set_base_prompt scripted (LINUX_PROMPT_PRI scripted)
                    (LINUX_PROMPT_ALT scripted) 1 None ?c4)"
  have 1: "super_check_enable_mode scripted (LINUX_PROMPT_ROOT scripted) (conn ?s) =
             (Inr False, ?c1)"
    by (simp add: scripted_run)
  have 2: "write_channel scripted (normalize_cmd scripted ''sudo -s'') ?c1 = (Inr (), ?c2)"
    by (simp add: scripted_run)
  have 3: "0 \<le> select_delay_factor scripted 0 (conn ?s)"
    by (simp add: scripted_def)
  have 4: "read_channel scripted ?c2 = (Inr ''[sudo] password for alice: '', ?c3)"
    by (simp add: scripted_run)
  have 5: "if re_search scripted ''ssword'' ''[sudo] password for alice: '' IGNORECASE
           then write_channel scripted (normalize_cmd scripted (secret ?s)) ?c3 = (Inr (), ?c4)
           else ?c4 = ?c3"
    by (simp add: scripted_run)
  have 6: "super_set_base_prompt scripted (LINUX_PROMPT_PRI scripted)
             (LINUX_PROMPT_ALT scripted) 1 None ?c4 = (Inr ''alice@host:~$'', ?c5)"
    by (simp add: scripted_run then_do_def)
  have 7: "super_check_enable_mode scripted (LINUX_PROMPT_ROOT scripted) ?c5 = (Inr False, ?c5)"
    by (simp add: scripted_run then_do_def)
  show ?thesis
    using enable_fails_once_when_not_privileged [OF 1 2 3 4 5 6 7, of None]
    by (simp add: enable_failed_msg_def scripted_run then_do_def)
qed

text \<open>
  C4: on a privileged session \<open>enable\<close> only makes the privilege test: it writes
  nothing to the channel, returns the empty string, and leaves the base connection as
  the test left it. A second call right after it, on a session that is still
  privileged, does the same.
\<close>

theorem enable_when_privileged_no_op:
  assumes "super_check_enable_mode B (LINUX_PROMPT_ROOT B) (conn s) = (Inr True, c1)"
      and "super_check_enable_mode B (LINUX_PROMPT_ROOT B) c1 = (Inr True, c2)"
  shows "enable B cmd pattern enable_pattern re_flags s =
           (Inr [], s\<lparr>trace := trace s @ [CheckEnableMode (LINUX_PROMPT_ROOT B)], conn := c1\<rparr>)
         \<and>
         enable B cmd pattern enable_pattern re_flags
             (s\<lparr>trace := trace s @ [CheckEnableMode (LINUX_PROMPT_ROOT B)], conn := c1\<rparr>) =
           (Inr [], s\<lparr>trace := trace s @ [CheckEnableMode (LINUX_PROMPT_ROOT B),
                                            CheckEnableMode (LINUX_PROMPT_ROOT B)],
                       conn := c2\<rparr>)"
  using assms
  by (simp add: enable_def Let_def check_enable_mode0_outcome then_do_def return_def)

theorem enable_when_privileged_no_op_witness:
  "enable scripted ''sudo -s'' ''ssword'' None IGNORECASE (login ''root'' [] ''root@host:~#'' []) =
     (Inr [],
      \<lparr>username = ''root'', secret = [], trace = [CheckEnableMode ''#''],
       conn = \<lparr>base_prompt = ''root@host:~#'', written = [], pending = []\<rparr>\<rparr>)
   \<and>
   enable scripted ''sudo -s'' ''ssword'' None IGNORECASE
       \<lparr>username = ''root'', secret = [], trace = [CheckEnableMode ''#''],
        conn = \<lparr>base_prompt = ''root@host:~#'', written = [], pending = []\<rparr>\<rparr> =
     (Inr [],
      \<lparr>username = ''root'', secret = [], trace = [CheckEnableMode ''#'', CheckEnableMode ''#''],
       conn = \<lparr>base_prompt = ''root@host:~#'', written = [], pending = []\<rparr>\<rparr>)"
proof -
  let ?s = "login ''root'' [] ''root@host:~#'' []"
  have 1: "super_check_enable_mode scripted (LINUX_PROMPT_ROOT scripted) (conn ?s) =
             (Inr True, conn ?s)"
    by (simp add: scripted_run)
  show ?thesis
    using enable_when_privileged_no_op [OF 1 1, of "''sudo -s''" "''ssword''" None IGNORECASE]
    by (simp add: scripted_run)
qed

subsection \<open>De-elevation: \<open>exit_enable_mode\<close>\<close>

text \<open>
  C3: on a session that is not privileged \<open>exit_enable_mode\<close> only makes the
  privilege test, writes nothing and returns the empty string. On a privileged session
  it writes the exit command once, sleeps three tenths of the delay factor, refreshes
  the base prompt and tests the privilege again; it raises the \<open>ValueError\<close> of a
  failed exit exactly when that second test still answers true, and returns the empty
  string otherwise. Nothing is tried again.
\<close>

theorem exit_enable_mode_single_attempt:
  "(super_check_enable_mode B (LINUX_PROMPT_ROOT B) (conn s) = (Inr False, c1) \<longrightarrow>
      exit_enable_mode B exit_command s =
        (Inr [], s\<lparr>trace := trace s @ [CheckEnableMode (LINUX_PROMPT_ROOT B)], conn := c1\<rparr>))
   \<and>
   (super_check_enable_mode B (LINUX_PROMPT_ROOT B) (conn s) = (Inr True, c1) \<and>
    write_channel B (normalize_cmd B exit_command) c1 = (Inr (), c2) \<and>
    0 \<le> select_delay_factor B 0 (conn s) \<and>
    super_set_base_prompt B (LINUX_PROMPT_PRI B) (LINUX_PROMPT_ALT B) 1 None c2 = (Inr p, c3) \<and>
    super_check_enable_mode B (LINUX_PROMPT_ROOT B) c3 = (Inr still_privileged, c4) \<longrightarrow>
      exit_enable_mode B exit_command s =
        (if still_privileged then Inl (ValueError ''Failed to exit enable mode.'') else Inr [],
         s\<lparr>trace := trace s @
              [CheckEnableMode (LINUX_PROMPT_ROOT B),
               WriteChannel (normalize_cmd B exit_command),
               Sleep (3 / 10 * select_delay_factor B 0 (conn s)),
               SetBasePrompt (LINUX_PROMPT_PRI B) (LINUX_PROMPT_ALT B) 1 None,
               CheckEnableMode (LINUX_PROMPT_ROOT B)],
            conn := c4\<rparr>))"
  by (simp add: exit_enable_mode_def Let_def check_enable_mode0_outcome write_cmd_outcome
      set_base_prompt0_outcome then_do_def sleep_def return_def raise_def)

theorem exit_enable_mode_single_attempt_witness:
  "exit_enable_mode scripted ''exit'' (login ''alice'' ''pw'' ''alice@host:~$'' []) =
     (Inr [],
      \<lparr>username = ''alice'', secret = ''pw'', trace = [CheckEnableMode ''#''],
       conn = \<lparr>base_prompt = ''alice@host:~$'', written = [], pending = []\<rparr>\<rparr>)
   \<and>
   exit_enable_mode scripted ''exit''
       (login ''alice'' ''pw'' ''root@host:~#'' [Data ''alice@host:~$ '']) =
     (Inr [],
      \<lparr>username = ''alice'', secret = ''pw'',
       trace = [CheckEnableMode ''#'', WriteChannel (''exit'' @ [CHR 0x0A]), Sleep (3 / 10),
                SetBasePrompt ''$'' ''#'' 1 None, CheckEnableMode ''#''],
       conn = \<lparr>base_prompt = ''alice@host:~$'',
               written = [''exit'' @ [CHR 0x0A], [CHR 0x0A]], pending = []\<rparr>\<rparr>)
   \<and>
   exit_enable_mode scripted ''exit''
       (login ''root'' [] ''root@host:~#'' [Data ''root@host:~# '']) =
     (Inl (ValueError ''Failed to exit enable mode.''),
      \<lparr>username = ''root'', secret = [],
       trace = [CheckEnableMode ''#'', WriteChannel (''exit'' @ [CHR 0x0A]), Sleep (3 / 10),
                SetBasePrompt ''$'' ''#'' 1 None, CheckEnableMode ''#''],
       conn = \<lparr>base_prompt = ''root@host:~#'',
               written = [''exit'' @ [CHR 0x0A], [CHR 0x0A]], pending = []\<rparr>\<rparr>)"
proof -
  let ?a = "login ''alice'' ''pw'' ''alice@host:~$'' []"
  let ?b = "login ''alice'' ''pw'' ''root@host:~#'' [Data ''alice@host:~$ '']"
  let ?r = "login ''root'' [] ''root@host:~#'' [Data ''root@host:~# '']"
  let ?w = "\<lambda>s. snd (write_channel scripted (normalize_cmd scripted ''exit'') (conn s))"
  let ?p = "\<lambda>s. snd (super_set_base_prompt scripted (LINUX_PROMPT_PRI scripted)
                       (LINUX_PROMPT_ALT scripted) 1 None (?w s))"
  have a: "super_check_enable_mode scripted (LINUX_PROMPT_ROOT scripted) (conn ?a) =
             (Inr False, conn ?a)"
    by (simp add: scripted_run)
  have b: "super_check_enable_mode scripted (LINUX_PROMPT_ROOT scripted) (conn ?b) =
             (Inr True, conn ?b) \<and>
           write_channel scripted (normalize_cmd scripted ''exit'') (conn ?b) = (Inr (), ?w ?b) \<and>
           0 \<le> select_delay_factor scripted 0 (conn ?b) \<and>
           super_set_base_prompt scripted (LINUX_PROMPT_PRI scripted)
             (LINUX_PROMPT_ALT scripted) 1 None (?w ?b) = (Inr ''alice@host:~$'', ?p ?b) \<and>
           super_check_enable_mode scripted (LINUX_PROMPT_ROOT scripted) (?p ?b) =
             (Inr False, ?p ?b)"
    by (simp add: scripted_run then_do_def)
  have r: "super_check_enable_mode scripted (LINUX_PROMPT_ROOT scripted) (conn ?r) =
             (Inr True, conn ?r) \<and>
           write_channel scripted (normalize_cmd scripted ''exit'') (conn ?r) = (Inr (), ?w ?r) \<and>
           0 \<le> select_delay_factor scripted 0 (conn ?r) \<and>
           super_set_base_prompt scripted (LINUX_PROMPT_PRI scripted)
             (LINUX_PROMPT_ALT scripted) 1 None (?w ?r) = (Inr ''root@host:~#'', ?p ?r) \<and>
           super_check_enable_mode scripted (LINUX_PROMPT_ROOT scripted) (?p ?r) =
             (Inr True, ?p ?r)"
    by (simp add: scripted_run then_do_def)
  show ?thesis
    using exit_enable_mode_single_attempt [THEN conjunct1, THEN mp, OF a]
      exit_enable_mode_single_attempt [THEN conjunct2, THEN mp, OF b]
      exit_enable_mode_single_attempt [THEN conjunct2, THEN mp, OF r]
    by (simp add: scripted_run then_do_def)
qed

text \<open>
  C10: whenever \<open>exit_enable_mode\<close> returns, it returns the empty string, also on the
  path that writes the exit command and refreshes the prompt: what the prompt refresh
  reads is not part of the result.
\<close>

theorem exit_enable_mode_returns_empty:
  assumes "exit_enable_mode B exit_command s = (Inr out, s')"
  shows "out = []"
  using assms
  by (auto simp: exit_enable_mode_def Let_def then_do_def return_def raise_def
      split: prod.splits sum.splits if_splits)

theorem exit_enable_mode_returns_empty_witness:
  "exit_enable_mode scripted ''exit''
     (login ''alice'' ''pw'' ''alice@host:~#'' [Data ''alice@host:~$ '']) =
   (Inr [],
    \<lparr>username = ''alice'', secret = ''pw'',
     trace = [CheckEnableMode ''#'', WriteChannel (''exit'' @ [CHR 0x0A]), Sleep (3 / 10),
              SetBasePrompt ''$'' ''#'' 1 None, CheckEnableMode ''#''],
     conn = \<lparr>base_prompt = ''alice@host:~$'',
             written = [''exit'' @ [CHR 0x0A], [CHR 0x0A]], pending = []\<rparr>\<rparr>)"
  using exit_enable_mode_returns_empty [of scripted "''exit''"
      "login ''alice'' ''pw'' ''alice@host:~#'' [Data ''alice@host:~$ '']"]
  by (simp add: exit_enable_mode_def driver_run scripted_run)

subsection \<open>Timeouts\<close>

text \<open>
  \<open>enable\<close> turns a \<open>socket.timeout\<close> of the channel read, of the write of the
  secret and of the prompt refresh into a \<open>NetmikoTimeoutException\<close>.
\<close>

lemma enable_translates_timeout:
  assumes "super_check_enable_mode B (LINUX_PROMPT_ROOT B) (conn s) = (Inr False, c1)"
      and "write_channel B (normalize_cmd B cmd) c1 = (Inr (), c2)"
      and "0 \<le> select_delay_factor B 0 (conn s)"
      and "read_channel B c2 = (Inl SocketTimeout, c3) \<or>
           read_channel B c2 = (Inr out, c3) \<and>
           (if re_search B pattern out re_flags
            then write_channel B (normalize_cmd B (secret s)) c3 = (Inr (), c4)
            else c4 = c3) \<and>
           super_set_base_prompt B (LINUX_PROMPT_PRI B) (LINUX_PROMPT_ALT B) 1 None c4 =
             (Inl SocketTimeout, c5)"
  shows "fst (enable B cmd pattern enable_pattern re_flags s) =
           Inl (NetmikoTimeoutException ''Timed-out reading channel, data not available.'')"
  using assms
  by (auto simp add: enable_def Let_def check_enable_mode0_outcome write_cmd_outcome
      set_base_prompt0_outcome invoke_outcome then_do_def except_socket_timeout_def
      sleep_def raise_def return_def split: if_splits)

text \<open>
  \<open>exit_enable_mode\<close> has no handler: a \<open>socket.timeout\<close> of its prompt refresh
  reaches the caller as it is.
\<close>

lemma exit_enable_mode_timeout:
  assumes "super_check_enable_mode B (LINUX_PROMPT_ROOT B) (conn s) = (Inr True, c1)"
      and "write_channel B (normalize_cmd B exit_command) c1 = (Inr (), c2)"
      and "0 \<le> select_delay_factor B 0 (conn s)"
      and "super_set_base_prompt B (LINUX_PROMPT_PRI B) (LINUX_PROMPT_ALT B) 1 None c2 =
             (Inl SocketTimeout, c3)"
  shows "fst (exit_enable_mode B exit_command s) = Inl SocketTimeout"
  using assms
  by (simp add: exit_enable_mode_def Let_def check_enable_mode0_outcome write_cmd_outcome
      set_base_prompt0_outcome then_do_def sleep_def)

text \<open>
  C2: a channel read that times out during \<open>exit_enable_mode\<close> is not turned into a
  \<open>NetmikoTimeoutException\<close>. On a privileged session whose prompt refresh times
  out, the call ends with the \<open>socket.timeout\<close> itself.
\<close>

theorem exit_enable_mode_raw_timeout:
  "exit_enable_mode scripted ''exit'' (login ''alice'' ''pw'' ''root@host:~#'' [Timeout]) =
   (Inl SocketTimeout,
    \<lparr>username = ''alice'', secret = ''pw'',
     trace = [CheckEnableMode ''#'', WriteChannel (''exit'' @ [CHR 0x0A]), Sleep (3 / 10),
              SetBasePrompt ''$'' ''#'' 1 None],
     conn = \<lparr>base_prompt = ''root@host:~#'',
             written = [''exit'' @ [CHR 0x0A], [CHR 0x0A]], pending = []\<rparr>\<rparr>)"
  by (simp add: exit_enable_mode_def driver_run scripted_run)

subsection \<open>Command mode\<close>

text \<open>
  C9: the command-mode methods are the elevation methods. \<open>config_mode\<close> is
  \<open>enable\<close> (which never looks at its \<open>enable_pattern\<close>), \<open>exit_config_mode\<close> is
  \<open>exit_enable_mode\<close> and \<open>check_config_mode\<close> is \<open>check_enable_mode\<close>, as functions
  of the session: same outcome, same state left behind, same exception. The ignored
  \<open>pattern\<close> arguments make no difference, and the default arguments agree.
\<close>

theorem command_mode_aliases:
  "config_mode B command pattern re_flags = enable B command pattern enable_pattern re_flags \<and>
   exit_config_mode B command pattern = exit_enable_mode B command \<and>
   check_config_mode B check_string pattern = check_enable_mode B check_string \<and>
   config_mode0 B = enable0 B \<and>
   exit_config_mode0 B = exit_enable_mode0 B \<and>
   check_config_mode0 B = check_enable_mode0 B"
  by (simp add: config_mode_def exit_config_mode_def check_config_mode_def enable_def
      config_mode0_def enable0_def exit_config_mode0_def exit_enable_mode0_def
      check_config_mode0_def check_enable_mode0_def fun_eq_iff)

text \<open>
  C5: for the user \<open>root\<close>, \<open>send_config_set\<close> hands \<open>exit_config_mode = False\<close> to
  the inherited method, whatever the caller asked for; for every other user it hands on
  the caller's value. Commands and keyword arguments are handed on as they are, and the
  driver itself does nothing else: the only traced call is the inherited
  \<open>send_config_set\<close>, and the outcome and the base state are the ones it gives.
\<close>

theorem send_config_set_never_exits_as_root:
  "(username s = ''root'' \<longrightarrow>
      send_config_set B config_commands exit_after kw s =
        (fst (super_send_config_set B config_commands False kw (conn s)),
         s\<lparr>trace := trace s @ [SendConfigSet config_commands False kw],
            conn := snd (super_send_config_set B config_commands False kw (conn s))\<rparr>))
   \<and>
   (username s \<noteq> ''root'' \<longrightarrow>
      send_config_set B config_commands exit_after kw s =
        (fst (super_send_config_set B config_commands exit_after kw (conn s)),
         s\<lparr>trace := trace s @ [SendConfigSet config_commands exit_after kw],
            conn := snd (super_send_config_set B config_commands exit_after kw (conn s))\<rparr>))"
  by (simp add: send_config_set_def invoke_def split: prod.splits)

theorem send_config_set_never_exits_as_root_witness:
  "send_config_set scripted (CommandSeq [''ls /tmp'']) True []
       (login ''root'' [] ''root@host:~#'' []) =
     (Inr [],
      \<lparr>username = ''root'', secret = [],
       trace = [SendConfigSet (CommandSeq [''ls /tmp'']) False []],
       conn = \<lparr>base_prompt = ''root@host:~#'', written = [''ls /tmp'' @ [CHR 0x0A]],
               pending = []\<rparr>\<rparr>)
   \<and>
   send_config_set scripted (CommandSeq [''ls /tmp'']) True []
       (login ''alice'' [] ''root@host:~#'' []) =
     (Inr [],
      \<lparr>username = ''alice'', secret = [],
       trace = [SendConfigSet (CommandSeq [''ls /tmp'']) True []],
       conn = \<lparr>base_prompt = ''root@host:~#'',
               written = [''ls /tmp'' @ [CHR 0x0A], ''exit'' @ [CHR 0x0A]], pending = []\<rparr>\<rparr>)"
proof -
  have r: "username (login ''root'' [] ''root@host:~#'' []) = ''root''"
    by (simp add: login_def)
  have a: "username (login ''alice'' [] ''root@host:~#'' []) \<noteq> ''root''"
    by (simp add: login_def)
  show ?thesis
    using send_config_set_never_exits_as_root [THEN conjunct1, THEN mp, OF r,
        of scripted "CommandSeq [''ls /tmp'']" True "[]"]
      send_config_set_never_exits_as_root [THEN conjunct2, THEN mp, OF a,
        of scripted "CommandSeq [''ls /tmp'']" True "[]"]
    by (simp add: scripted_run)
qed

subsection \<open>Unsupported operations\<close>

text \<open>
  C8: \<open>save_config\<close>, \<open>enable_scp\<close> and \<open>disable_scp\<close> raise
  \<open>NotImplementedError\<close> for all arguments and leave the object as it was.
\<close>

theorem unsupported_operations:
  "save_config args kw s = (Inl NotImplementedError, s) \<and>
   enable_scp cmd t = (Inl NotImplementedError, t) \<and>
   disable_scp cmd t = (Inl NotImplementedError, t)"
  by (simp add: save_config_def enable_scp_def disable_scp_def raise_def)

subsection \<open>Checksums\<close>

text \<open>
  C7: \<open>process_md5\<close> takes no session. On a checksum line, a hash without white
  space followed by two spaces and a file name, it returns the hash, which is the
  leading token of the line and has no white space left to strip.
\<close>

theorem process_md5_leading_token:
  assumes "h \<noteq> []" and "\<forall>c\<in>set h. \<not> is_space c"
  shows "process_md5_0 (h @ ''  '' @ f) = Inr h \<and> strip h = h"
proof -
  have sp: "is_space CHR '' ''"
    by (simp add: is_space_def)
  have tok: "takeWhile (\<lambda>c. \<not> is_space c) (h @ ''  '' @ f) = h"
    using assms(2) sp by simp
  have rest: "dropWhile (\<lambda>c. \<not> is_space c) (h @ ''  '' @ f) = ''  '' @ f"
    using assms(2) sp by simp
  have "leading_token (h @ ''  '' @ f) = Some h"
    unfolding leading_token_def Let_def tok rest using assms(1) by simp
  then have "process_md5_0 (h @ ''  '' @ f) = Inr h"
    by (simp add: process_md5_0_def process_md5_def super_process_md5_def)
  with strip_token [OF assms(2)] show ?thesis by simp
qed

theorem process_md5_leading_token_witness:
  "process_md5_0 ''d41d8cd98f00b204e9800998ecf8427e  file.bin'' =
     Inr ''d41d8cd98f00b204e9800998ecf8427e''
   \<and> strip ''d41d8cd98f00b204e9800998ecf8427e'' = ''d41d8cd98f00b204e9800998ecf8427e''"
proof -
  have 1: "''d41d8cd98f00b204e9800998ecf8427e'' \<noteq> []"
    by simp
  have 2: "\<forall>c\<in>set ''d41d8cd98f00b204e9800998ecf8427e''. \<not> is_space c"
    by (simp add: is_space_def)
  show ?thesis
    using process_md5_leading_token [OF 1 2, of "''file.bin''"] by simp
qed

text \<open>
  C6: without a \<open>remote_file\<close> argument, for a transfer with a file system,
  \<open>remote_md5\<close> sends one command, the base command, a space, the file system, a
  slash and the destination file (direction \<open>put\<close>) or the source file (direction
  \<open>get\<close>), with a read timeout of 300; when the command returns and its output
  parses, the result is the parsed hash, stripped.
\<close>

theorem remote_md5_command:
  assumes "direction t = ''put'' \<or> direction t = ''get''"
      and "file_system t = Some remote_root"
      and "cmd = base_cmd @ '' '' @ remote_root @ ''/'' @
                 (if direction t = ''put'' then dest_file t else source_file t)"
      and "send_command_str B cmd 300 (conn (ssh_ctl_chan t)) = (Inr raw, c')"
      and "process_md5_0 raw = Inr h"
  shows "remote_md5 B base_cmd None t =
           (Inr (strip h),
            t\<lparr>ssh_ctl_chan := (ssh_ctl_chan t)
                 \<lparr>trace := trace (ssh_ctl_chan t) @ [SendCommandStr cmd 300], conn := c'\<rparr>\<rparr>)"
  using assms
  by (auto simp add: remote_md5_def remote_md5_cmd_def Let_def fmt_def invoke_def)

theorem remote_md5_command_witness:
  "remote_md5 scripted ''md5sum'' None
       \<lparr>source_file = ''b.txt'', dest_file = ''a.txt'', file_system = Some ''/var/tmp'',
        direction = ''put'',
        ssh_ctl_chan = login ''alice'' [] ''alice@host:~$''
          [Data (''d41d8cd98f00b204e9800998ecf8427e  /var/tmp/a.txt'' @ [CHR 0x0A])]\<rparr> =
     (Inr ''d41d8cd98f00b204e9800998ecf8427e'',
      \<lparr>source_file = ''b.txt'', dest_file = ''a.txt'', file_system = Some ''/var/tmp'',
       direction = ''put'',
       ssh_ctl_chan =
         \<lparr>username = ''alice'', secret = [],
          trace = [SendCommandStr ''md5sum /var/tmp/a.txt'' 300],
          conn = \<lparr>base_prompt = ''alice@host:~$'',
                  written = [''md5sum /var/tmp/a.txt'' @ [CHR 0x0A]], pending = []\<rparr>\<rparr>\<rparr>)
   \<and>
   remote_md5 scripted ''md5sum'' None
       \<lparr>source_file = ''b.txt'', dest_file = ''a.txt'', file_system = Some ''/var/tmp'',
        direction = ''get'',
        ssh_ctl_chan = login ''alice'' [] ''alice@host:~$''
          [Data (''0cc175b9c0f1b6a831c399e269772661  /var/tmp/b.txt'' @ [CHR 0x0A])]\<rparr> =
     (Inr ''0cc175b9c0f1b6a831c399e269772661'',
      \<lparr>source_file = ''b.txt'', dest_file = ''a.txt'', file_system = Some ''/var/tmp'',
       direction = ''get'',
       ssh_ctl_chan =
         \<lparr>username = ''alice'', secret = [],
          trace = [SendCommandStr ''md5sum /var/tmp/b.txt'' 300],
          conn = \<lparr>base_prompt = ''alice@host:~$'',
                  written = [''md5sum /var/tmp/b.txt'' @ [CHR 0x0A]], pending = []\<rparr>\<rparr>\<rparr>)"
proof -
  let ?put = "\<lparr>source_file = ''b.txt'', dest_file = ''a.txt'', file_system = Some ''/var/tmp'',
        direction = ''put'',
        ssh_ctl_chan = login ''alice'' [] ''alice@host:~$''
          [Data (''d41d8cd98f00b204e9800998ecf8427e  /var/tmp/a.txt'' @ [CHR 0x0A])]\<rparr>"
  let ?get = "\<lparr>source_file = ''b.txt'', dest_file = ''a.txt'', file_system = Some ''/var/tmp'',
        direction = ''get'',
        ssh_ctl_chan = login ''alice'' [] ''alice@host:~$''
          [Data (''0cc175b9c0f1b6a831c399e269772661  /var/tmp/b.txt'' @ [CHR 0x0A])]\<rparr>"
  have p1: "direction ?put = ''put'' \<or> direction ?put = ''get''" by simp
  have p2: "file_system ?put = Some ''/var/tmp''" by simp
  have p3: "''md5sum /var/tmp/a.txt'' = ''md5sum'' @ '' '' @ ''/var/tmp'' @ ''/'' @
              (if direction ?put = ''put'' then dest_file ?put else source_file ?put)"
    by simp
  have p4: "send_command_str scripted ''md5sum /var/tmp/a.txt'' 300 (conn (ssh_ctl_chan ?put)) =
              (Inr (''d41d8cd98f00b204e9800998ecf8427e  /var/tmp/a.txt'' @ [CHR 0x0A]),
               \<lparr>base_prompt = ''alice@host:~$'',
                written = [''md5sum /var/tmp/a.txt'' @ [CHR 0x0A]], pending = []\<rparr>)"
    by (simp add: scripted_run then_do_def)
  have p5: "process_md5_0 (''d41d8cd98f00b204e9800998ecf8427e  /var/tmp/a.txt'' @ [CHR 0x0A]) =
              Inr ''d41d8cd98f00b204e9800998ecf8427e''"
    by (simp add: process_md5_0_def process_md5_def super_process_md5_def leading_token_def
        is_space_def)
  have g1: "direction ?get = ''put'' \<or> direction ?get = ''get''" by simp
  have g2: "file_system ?get = Some ''/var/tmp''" by simp
  have g3: "''md5sum /var/tmp/b.txt'' = ''md5sum'' @ '' '' @ ''/var/tmp'' @ ''/'' @
              (if direction ?get = ''put'' then dest_file ?get else source_file ?get)"
    by simp
  have g4: "send_command_str scripted ''md5sum /var/tmp/b.txt'' 300 (conn (ssh_ctl_chan ?get)) =
              (Inr (''0cc175b9c0f1b6a831c399e269772661  /var/tmp/b.txt'' @ [CHR 0x0A]),
               \<lparr>base_prompt = ''alice@host:~$'',
                written = [''md5sum /var/tmp/b.txt'' @ [CHR 0x0A]], pending = []\<rparr>)"
    by (simp add: scripted_run then_do_def)
  have g5: "process_md5_0 (''0cc175b9c0f1b6a831c399e269772661  /var/tmp/b.txt'' @ [CHR 0x0A]) =
              Inr ''0cc175b9c0f1b6a831c399e269772661''"
    by (simp add: process_md5_0_def process_md5_def super_process_md5_def leading_token_def
        is_space_def)
  show ?thesis
    using remote_md5_command [OF p1 p2 p3 p4 p5] remote_md5_command [OF g1 g2 g3 g4 g5]
    by (simp add: login_def strip_def rstrip_def is_space_def)
qed

end
